theory Spec2Isabelle
  imports Complex_Main "HOL-Library.AList"
begin

section \<open>Data\<close>

text \<open>
  The values the handlers of \<^verbatim>\<open>src/main.py\<close> work on are what Python's \<^verbatim>\<open>json\<close>
  module produces: \<^verbatim>\<open>None\<close>, booleans, ints, floats, strings, lists and dicts with string
  keys. A dict is an association list in insertion order; reading goes through
  \<open>map_of\<close>, writing through \<open>AList.update\<close>, which replaces the value of a key
  in place and appends a new key at the end, as a Python dict does.
\<close>

datatype json =
    JNull
  | JBool bool
  | JInt int
  | JFloat real
  | JStr string
  | JArr "json list"
  | JObj "(string \<times> json) list"

text \<open>The exceptions that can occur inside the \<^verbatim>\<open>try\<close> block of \<^verbatim>\<open>webhook\<close>.\<close>

datatype py_exc =
    JSONDecodeError
  | TypeError
  | AttributeError
  | UnicodeEncodeError
  | APIConnectionError
  | APITimeoutError
  | OtherError string

text \<open>
  \<^verbatim>\<open>raise HTTPException(status_code=400, detail=f"Invalid JSON data: {str(e)}")\<close>: the
  status code and the exception the detail text is built from.
\<close>

datatype http_exception = HTTPException (status_code: nat) (cause: py_exc)

text \<open>
  The three module-level lists hold references to Python objects, and \<^verbatim>\<open>webhook\<close>
  writes to the dict \<^verbatim>\<open>data\<close> after it has appended it to \<^verbatim>\<open>content_store\<close>. So the
  state has an explicit heap: an object lives at an address (its index in \<open>heap\<close>),
  and the stores are lists of addresses. Values nested inside an object are kept by
  value: no code path writes to an object after it has been nested into another one.
\<close>

type_synonym addr = nat

record state =
  heap :: "json list"
  content_store :: "addr list"
  hospital_store :: "addr list"
  consultation_store :: "addr list"

definition alloc :: "json \<Rightarrow> state \<Rightarrow> addr \<times> state" where
  "alloc v s = (length (heap s), s\<lparr>heap := heap s @ [v]\<rparr>)"

section \<open>Python primitives used by the handler\<close>

text \<open>\<^verbatim>\<open>d.get(k, default)\<close> on a dict.\<close>

definition dict_get :: "(string \<times> json) list \<Rightarrow> string \<Rightarrow> json \<Rightarrow> json" where
  "dict_get kv k dflt = (case map_of kv k of Some v \<Rightarrow> v | None \<Rightarrow> dflt)"

text \<open>\<^verbatim>\<open>d[k] = v\<close> on a dict.\<close>

definition dict_set :: "(string \<times> json) list \<Rightarrow> string \<Rightarrow> json \<Rightarrow> (string \<times> json) list" where
  "dict_set kv k v = AList.update k v kv"

text \<open>
  \<^verbatim>\<open>x.get(k, default)\<close> on any value: only a dict has the method, every other value
  raises \<^verbatim>\<open>AttributeError\<close>.
\<close>

definition py_get :: "json \<Rightarrow> string \<Rightarrow> json \<Rightarrow> py_exc + json" where
  "py_get x k dflt = (case x of JObj kv \<Rightarrow> Inr (dict_get kv k dflt) | _ \<Rightarrow> Inl AttributeError)"

text \<open>\<^verbatim>\<open>k in t\<close> for two strings: \<open>k\<close> occurs in \<open>t\<close> as a contiguous run.\<close>

fun substring :: "string \<Rightarrow> string \<Rightarrow> bool" where
  "substring k [] = (k = [])"
| "substring k (c # cs) = (take (length k) (c # cs) = k \<or> substring k cs)"

text \<open>
  \<^verbatim>\<open>k in x\<close> for a string \<open>k\<close>: key membership on a dict, element membership on a
  list, substring test on a string, \<^verbatim>\<open>TypeError\<close> on \<^verbatim>\<open>None\<close>, booleans and numbers.
\<close>

definition py_in :: "string \<Rightarrow> json \<Rightarrow> py_exc + bool" where
  "py_in k x =
     (case x of
        JObj kv \<Rightarrow> Inr (k \<in> set (map fst kv))
      | JArr xs \<Rightarrow> Inr (JStr k \<in> set xs)
      | JStr t \<Rightarrow> Inr (substring k t)
      | _ \<Rightarrow> Inl TypeError)"

text \<open>
  A Python string is a sequence of code points, and one decoded from JSON can hold a
  lone surrogate (\<^verbatim>\<open>json.loads\<close> accepts the escape \<^verbatim>\<open>\ud800\<close> on its own). A string is
  modelled as the bytes of its UTF-8 encoding, a surrogate encoded like any other code
  point of its range: the byte \<open>0xED\<close>, a byte in \<open>0xA0..0xBF\<close>, a continuation byte.
  No other code point gives \<open>0xED\<close> followed by a byte above \<open>0x9F\<close>, so a string
  holds a surrogate exactly when that pair of bytes occurs in it.
\<close>

fun has_surrogate :: "string \<Rightarrow> bool" where
  "has_surrogate (c # d # cs) =
     ((of_char c :: nat) = 237 \<and> 160 \<le> (of_char d :: nat) \<and> (of_char d :: nat) \<le> 191
      \<or> has_surrogate (d # cs))"
| "has_surrogate cs = False"

text \<open>
  \<^verbatim>\<open>print(x)\<close>, with the standard output in UTF-8. A string is written as it is, and
  encoding it raises \<^verbatim>\<open>UnicodeEncodeError\<close> when it holds a surrogate. Every other value
  is written as its \<^verbatim>\<open>repr\<close>, in which the strings inside a list or a dict appear with
  their surrogates escaped, so the text can always be encoded.
\<close>

definition py_print :: "json \<Rightarrow> py_exc + unit" where
  "py_print x =
     (case x of
        JStr t \<Rightarrow> if has_surrogate t then Inl UnicodeEncodeError else Inr ()
      | _ \<Rightarrow> Inr ())"

text \<open>
  \<^verbatim>\<open>str.lower()\<close>: the bytes of \<^verbatim>\<open>A\<close>..\<^verbatim>\<open>Z\<close> (65..90) move to \<^verbatim>\<open>a\<close>..\<^verbatim>\<open>z\<close>, every
  other byte stays. (Python also lowers letters outside ASCII, but none of them becomes
  a letter of \<^verbatim>\<open>emergency\<close>, the only string the result is compared with.)
\<close>

definition lower_char :: "char \<Rightarrow> char" where
  "lower_char c =
     (let n = (of_char c :: nat) in if 65 \<le> n \<and> n \<le> 90 then char_of (n + 32) else c)"

definition str_lower :: "string \<Rightarrow> string" where
  "str_lower s = map lower_char s"

text \<open>\<^verbatim>\<open>x.lower()\<close> on any value: only a string has the method.\<close>

definition py_lower :: "json \<Rightarrow> py_exc + string" where
  "py_lower x = (case x of JStr t \<Rightarrow> Inr (str_lower t) | _ \<Rightarrow> Inl AttributeError)"

section \<open>The handlers\<close>

text \<open>
  \<^verbatim>\<open>forward_to_hospital\<close> and \<^verbatim>\<open>forward_to_consultation\<close>: append the reference to the
  store and return the acknowledgement dict.
\<close>

definition forward_to_hospital :: "addr \<Rightarrow> state \<Rightarrow> json \<times> state" where
  "forward_to_hospital g s =
     (JObj [(''message'', JStr ''Data forwarded to hospital.'')],
      s\<lparr>hospital_store := hospital_store s @ [g]\<rparr>)"

definition forward_to_consultation :: "addr \<Rightarrow> state \<Rightarrow> json \<times> state" where
  "forward_to_consultation g s =
     (JObj [(''message'', JStr ''Data forwarded to consultation.'')],
      s\<lparr>consultation_store := consultation_store s @ [g]\<rparr>)"

text \<open>
  The \<^verbatim>\<open>except\<close> branch of the inner \<^verbatim>\<open>try\<close> (lines 124-129): the dict built from
  the event. The three \<^verbatim>\<open>.get\<close> chains run in the order of the dict literal; each
  raises \<^verbatim>\<open>AttributeError\<close> when the outer \<^verbatim>\<open>.get\<close> returns something that is not a
  dict.
\<close>

definition fallback_response :: "(string \<times> json) list \<Rightarrow> py_exc + json" where
  "fallback_response kv =
     (case py_get (dict_get kv ''extracted_data'' (JObj [])) ''location'' (JStr '''') of
        Inl e \<Rightarrow> Inl e
      | Inr loc \<Rightarrow>
     (case py_get (dict_get kv ''extracted_data'' (JObj [])) ''issues'' (JStr '''') of
        Inl e \<Rightarrow> Inl e
      | Inr iss \<Rightarrow>
     (case py_get (dict_get kv ''context_details'' (JObj [])) ''recipient_phone_number'' (JStr '''') of
        Inl e \<Rightarrow> Inl e
      | Inr ph \<Rightarrow>
          Inr (JObj [(''status'', JStr ''not emergency''),
                     (''location'', loc),
                     (''issue'', iss),
                     (''recipient_phone_number'', ph)]))))"

text \<open>
  Lines 120-129: \<^verbatim>\<open>json.loads\<close> on the answer text, and the fallback when it raises.
  \<^verbatim>\<open>json.loads\<close> is library code: it is the parameter \<open>loads\<close>, with \<open>None\<close> for
  "raises".
\<close>

definition parse_groq_response ::
  "(string \<Rightarrow> json option) \<Rightarrow> string \<Rightarrow> (string \<times> json) list \<Rightarrow> py_exc + json" where
  "parse_groq_response loads text kv =
     (case loads text of Some v \<Rightarrow> Inr v | None \<Rightarrow> fallback_response kv)"

text \<open>
  Lines 132-135: the routing decision on \<^verbatim>\<open>groq_response\<close>, the object at address
  \<open>g\<close> whose value is \<open>v\<close>.
\<close>

definition forward :: "addr \<Rightarrow> json \<Rightarrow> state \<Rightarrow> (py_exc + json) \<times> state" where
  "forward g v s =
     (case py_get v ''status'' (JStr '''') of
        Inl e \<Rightarrow> (Inl e, s)
      | Inr st \<Rightarrow>
         (case py_lower st of
            Inl e \<Rightarrow> (Inl e, s)
          | Inr l \<Rightarrow>
             if l = ''emergency''
             then (let (r, s') = forward_to_hospital g s in (Inr r, s'))
             else (let (r, s') = forward_to_consultation g s in (Inr r, s'))))"

text \<open>
  Lines 79-139, the body of \<^verbatim>\<open>if "extracted_data" in data\<close>, for the object \<^verbatim>\<open>data\<close> at
  address \<open>d\<close> with value \<open>body\<close>. Building the prompt calls \<^verbatim>\<open>data.get\<close>, which
  needs a dict. The parameter \<open>groq\<close> is what creating the client and calling
  \<^verbatim>\<open>client.chat.completions.create(...)\<close> does for this prompt: raise an exception
  or return the answer text. The last two assignments write to the object at \<open>d\<close>.
\<close>

definition webhook_extracted ::
  "(string \<Rightarrow> json option) \<Rightarrow> py_exc + string \<Rightarrow> addr \<Rightarrow> json \<Rightarrow> state
     \<Rightarrow> (py_exc + json) \<times> state" where
  "webhook_extracted loads groq d body s =
     (case body of
        JObj kv \<Rightarrow>
          (case groq of
             Inl e \<Rightarrow> (Inl e, s)
           | Inr text \<Rightarrow>
              (case parse_groq_response loads text kv of
                 Inl e \<Rightarrow> (Inl e, s)
               | Inr v \<Rightarrow>
                  (let (g, s1) = alloc v s in
                   case forward g v s1 of
                     (Inl e, s2) \<Rightarrow> (Inl e, s2)
                   | (Inr fr, s2) \<Rightarrow>
                      (let kv' = dict_set (dict_set kv ''groq_response'' v) ''forward_result'' fr
                       in (Inr (JObj kv'), s2\<lparr>heap := (heap s2)[d := JObj kv']\<rparr>)))))
      | _ \<Rightarrow> (Inl AttributeError, s))"

text \<open>The dict returned on line 141, as the caller receives it.\<close>

definition success_response :: "json \<Rightarrow> json" where
  "success_response data =
     JObj [(''status'', JStr ''success''),
           (''message'', JStr ''Webhook received and processed''),
           (''data'', data)]"

text \<open>
  \<^verbatim>\<open>webhook\<close>. The parameter \<open>request\<close> is what \<^verbatim>\<open>await request.json()\<close> does: raise, or
  return the decoded body, a fresh object. Line 72 prints the body, which can raise
  before anything is stored. Every exception of the \<^verbatim>\<open>try\<close> block becomes the
  \<^verbatim>\<open>HTTPException\<close> with status 400 of line 143. Nothing is awaited after the first
  line, so the rest of a call runs without interleaving.
\<close>

definition webhook ::
  "(string \<Rightarrow> json option) \<Rightarrow> py_exc + json \<Rightarrow> py_exc + string \<Rightarrow> state
     \<Rightarrow> (http_exception + json) \<times> state" where
  "webhook loads request groq s =
     (case request of
        Inl e \<Rightarrow> (Inl (HTTPException 400 e), s)
      | Inr body \<Rightarrow>
         (let (d, s1) = alloc body s in
          case py_print body of
            Inl e \<Rightarrow> (Inl (HTTPException 400 e), s1)
          | Inr u \<Rightarrow>
             (let s2 = s1\<lparr>content_store := content_store s1 @ [d]\<rparr>
              in case py_in ''extracted_data'' body of
                   Inl e \<Rightarrow> (Inl (HTTPException 400 e), s2)
                 | Inr False \<Rightarrow> (Inr (success_response body), s2)
                 | Inr True \<Rightarrow>
                    (case webhook_extracted loads groq d body s2 of
                       (Inl e, s3) \<Rightarrow> (Inl (HTTPException 400 e), s3)
                     | (Inr data, s3) \<Rightarrow> (Inr (success_response data), s3)))))"

section \<open>Notions used to state the properties\<close>

text \<open>The state after lines 71-75: the decoded body is a new object, appended to \<^verbatim>\<open>content_store\<close>.\<close>

definition ingested :: "json \<Rightarrow> state \<Rightarrow> state" where
  "ingested body s =
     s\<lparr>heap := heap s @ [body], content_store := content_store s @ [length (heap s)]\<rparr>"

text \<open>The two acknowledgements, and the event with the two keys of lines 138-139 written.\<close>

definition hospital_ack :: json where
  "hospital_ack = JObj [(''message'', JStr ''Data forwarded to hospital.'')]"

definition consultation_ack :: json where
  "consultation_ack = JObj [(''message'', JStr ''Data forwarded to consultation.'')]"

definition enriched :: "(string \<times> json) list \<Rightarrow> json \<Rightarrow> json \<Rightarrow> json" where
  "enriched kv v fr = JObj (dict_set (dict_set kv ''groq_response'' v) ''forward_result'' fr)"

text \<open>
  A parsed answer that routing can read: an object whose \<^verbatim>\<open>status\<close> is absent or a
  string.
\<close>

definition routable :: "json \<Rightarrow> bool" where
  "routable v =
     (case v of
        JObj ans \<Rightarrow>
          (case map_of ans ''status'' of
             None \<Rightarrow> True
           | Some (JStr st) \<Rightarrow> True
           | Some _ \<Rightarrow> False)
      | _ \<Rightarrow> False)"

text \<open>
  Equality of two strings up to the case of ASCII letters, said without \<open>str_lower\<close>:
  the strings have the same length, and at each position the two bytes are equal or are
  the upper-case and the lower-case form of one letter (32 apart, the upper one in
  65..90).
\<close>

definition is_upper :: "char \<Rightarrow> bool" where
  "is_upper c = (65 \<le> (of_char c :: nat) \<and> (of_char c :: nat) \<le> 90)"

definition same_letter :: "char \<Rightarrow> char \<Rightarrow> bool" where
  "same_letter c d =
     (c = d \<or> (is_upper c \<and> (of_char d :: nat) = of_char c + 32)
            \<or> (is_upper d \<and> (of_char c :: nat) = of_char d + 32))"

definition ci_equal :: "string \<Rightarrow> string \<Rightarrow> bool" where
  "ci_equal s t = list_all2 same_letter s t"

text \<open>
  The deterministic heuristic as the specification words it: status not-emergency, and
  each of the three other fields read from the event if present, else the empty string.
\<close>

definition event_field :: "(string \<times> json) list \<Rightarrow> string \<Rightarrow> string \<Rightarrow> json" where
  "event_field kv outer inner =
     (case map_of kv outer of
        Some (JObj m) \<Rightarrow> (case map_of m inner of Some v \<Rightarrow> v | None \<Rightarrow> JStr '''')
      | _ \<Rightarrow> JStr '''')"

definition heuristic :: "(string \<times> json) list \<Rightarrow> json" where
  "heuristic kv =
     JObj [(''status'', JStr ''not emergency''),
           (''location'', event_field kv ''extracted_data'' ''location''),
           (''issue'', event_field kv ''extracted_data'' ''issues''),
           (''recipient_phone_number'', event_field kv ''context_details'' ''recipient_phone_number'')]"

text \<open>
  The specification's data model types \<^verbatim>\<open>extracted_data\<close> and \<^verbatim>\<open>context_details\<close> as
  mappings that may be absent.
\<close>

definition mapping_or_absent :: "(string \<times> json) list \<Rightarrow> string \<Rightarrow> bool" where
  "mapping_or_absent kv k =
     (case map_of kv k of None \<Rightarrow> True | Some (JObj m) \<Rightarrow> True | Some _ \<Rightarrow> False)"


subsection \<open>Concrete inputs\<close>

definition init_state :: state where
  "init_state = \<lparr>heap = [], content_store = [], hospital_store = [], consultation_store = []\<rparr>"

text \<open>The event of the specification's concrete scenarios, and an event without \<^verbatim>\<open>extracted_data\<close>.\<close>

definition chest_pain_event :: "(string \<times> json) list" where
  "chest_pain_event =
     [(''transcript'', JStr ''chest pain''),
      (''extracted_data'', JObj [(''location'', JStr ''Main St''), (''issues'', JStr ''chest pain'')]),
      (''context_details'', JObj [(''recipient_phone_number'', JStr ''555-1111'')])]"

definition bare_event :: "(string \<times> json) list" where
  "bare_event = [(''transcript'', JStr ''hello'')]"

text \<open>An event whose \<^verbatim>\<open>extracted_data\<close> is present but is \<^verbatim>\<open>null\<close>, not a mapping.\<close>

definition null_data_event :: "(string \<times> json) list" where
  "null_data_event = [(''transcript'', JStr ''hello''), (''extracted_data'', JNull)]"

text \<open>
  The answer text \<^verbatim>\<open>{"status": "EMERGENCY"}\<close> (the byte \<open>0x22\<close> is the double quote), and
  a table of what \<^verbatim>\<open>json.loads\<close> does on the answer texts used below.
\<close>

definition emergency_text :: string where
  "emergency_text =
     ''{'' @ [CHR 0x22] @ ''status'' @ [CHR 0x22] @ '': '' @ [CHR 0x22] @ ''EMERGENCY'' @ [CHR 0x22] @ ''}''"

definition sample_loads :: "string \<Rightarrow> json option" where
  "sample_loads t =
     (if t = ''{}'' then Some (JObj [])
      else if t = ''[]'' then Some (JArr [])
      else if t = ''7'' then Some (JInt 7)
      else if t = emergency_text then Some (JObj [(''status'', JStr ''EMERGENCY'')])
      else if t = ''I cannot help with that.'' then None
      else None)"

text \<open>A state in which one earlier event has been stored.\<close>

definition one_event_state :: state where
  "one_event_state =
     \<lparr>heap = [JObj bare_event], content_store = [0], hospital_store = [], consultation_store = []\<rparr>"

section \<open>What one call of the handler does\<close>

lemma webhook_no_key:
  "''extracted_data'' \<notin> set (map fst kv) \<Longrightarrow>
   webhook loads (Inr (JObj kv)) groq s = (Inr (success_response (JObj kv)), ingested (JObj kv) s)"
  by (simp add: webhook_def alloc_def py_print_def py_in_def ingested_def)

lemma webhook_with_key:
  "''extracted_data'' \<in> set (map fst kv) \<Longrightarrow>
   webhook loads (Inr (JObj kv)) groq s =
     (case webhook_extracted loads groq (length (heap s)) (JObj kv) (ingested (JObj kv) s) of
        (Inl e, s3) \<Rightarrow> (Inl (HTTPException 400 e), s3)
      | (Inr data, s3) \<Rightarrow> (Inr (success_response data), s3))"
  by (simp add: webhook_def alloc_def py_print_def py_in_def ingested_def)

text \<open>
  A body that is a bare string holding a surrogate is not stored: printing it raises
  before line 75.
\<close>

lemma webhook_print_raises:
  "has_surrogate t \<Longrightarrow>
   webhook loads (Inr (JStr t)) groq s =
     (Inl (HTTPException 400 UnicodeEncodeError), s\<lparr>heap := heap s @ [JStr t]\<rparr>)"
  by (simp add: webhook_def alloc_def py_print_def)

lemma has_surrogate_example:
  "has_surrogate [CHR 0xED, CHR 0xA0, CHR 0x80] \<and> \<not> has_surrogate ''extracted_data''"
  by simp

lemma webhook_groq_raises:
  "''extracted_data'' \<in> set (map fst kv) \<Longrightarrow>
   webhook loads (Inr (JObj kv)) (Inl e) s = (Inl (HTTPException 400 e), ingested (JObj kv) s)"
  by (simp add: webhook_with_key webhook_extracted_def)

lemma webhook_parse_raises:
  assumes "''extracted_data'' \<in> set (map fst kv)"
    and "parse_groq_response loads text kv = Inl e"
  shows "webhook loads (Inr (JObj kv)) (Inr text) s =
     (Inl (HTTPException 400 e), ingested (JObj kv) s)"
  using assms by (simp add: webhook_with_key webhook_extracted_def)

lemma webhook_hospital:
  assumes "''extracted_data'' \<in> set (map fst kv)"
    and "parse_groq_response loads text kv = Inr (JObj ans)"
    and "dict_get ans ''status'' (JStr '''') = JStr st"
    and "str_lower st = ''emergency''"
  shows "webhook loads (Inr (JObj kv)) (Inr text) s =
     (Inr (success_response (enriched kv (JObj ans) hospital_ack)),
      s\<lparr>heap := heap s @ [enriched kv (JObj ans) hospital_ack, JObj ans],
        content_store := content_store s @ [length (heap s)],
        hospital_store := hospital_store s @ [Suc (length (heap s))]\<rparr>)"
  using assms
  by (simp add: webhook_with_key webhook_extracted_def forward_def py_get_def py_lower_def
      alloc_def Let_def forward_to_hospital_def ingested_def enriched_def hospital_ack_def)

lemma webhook_consultation:
  assumes "''extracted_data'' \<in> set (map fst kv)"
    and "parse_groq_response loads text kv = Inr (JObj ans)"
    and "dict_get ans ''status'' (JStr '''') = JStr st"
    and "str_lower st \<noteq> ''emergency''"
  shows "webhook loads (Inr (JObj kv)) (Inr text) s =
     (Inr (success_response (enriched kv (JObj ans) consultation_ack)),
      s\<lparr>heap := heap s @ [enriched kv (JObj ans) consultation_ack, JObj ans],
        content_store := content_store s @ [length (heap s)],
        consultation_store := consultation_store s @ [Suc (length (heap s))]\<rparr>)"
  using assms
  by (simp add: webhook_with_key webhook_extracted_def forward_def py_get_def py_lower_def
      alloc_def Let_def forward_to_consultation_def ingested_def enriched_def
      consultation_ack_def)

lemma routable_iff:
  "routable v \<longleftrightarrow> (\<exists>ans st. v = JObj ans \<and> dict_get ans ''status'' (JStr '''') = JStr st)"
  by (auto simp: routable_def dict_get_def split: json.splits option.splits)

lemma forward_not_routable: "\<not> routable v \<Longrightarrow> forward g v s = (Inl AttributeError, s)"
  by (auto simp: routable_def forward_def py_get_def py_lower_def dict_get_def
      split: json.splits option.splits)

lemma webhook_not_routable:
  assumes "''extracted_data'' \<in> set (map fst kv)"
    and "parse_groq_response loads text kv = Inr v"
    and "\<not> routable v"
  shows "webhook loads (Inr (JObj kv)) (Inr text) s =
     (Inl (HTTPException 400 AttributeError),
      s\<lparr>heap := heap s @ [JObj kv, v], content_store := content_store s @ [length (heap s)]\<rparr>)"
  using assms
  by (simp add: webhook_with_key webhook_extracted_def forward_not_routable alloc_def
      ingested_def Let_def)

lemma webhook_not_object:
  assumes "py_in ''extracted_data'' body = Inr True" and "\<forall>kv. body \<noteq> JObj kv"
  shows "\<exists>e. fst (webhook loads (Inr body) groq s) = Inl (HTTPException 400 e)"
  using assms
  by (cases body)
    (simp_all add: webhook_def webhook_extracted_def alloc_def py_print_def Let_def)

lemma webhook_completes_cases:
  assumes ok: "webhook loads (Inr body) groq s = (Inr r, s')"
    and key: "py_in ''extracted_data'' body = Inr True"
  obtains kv atext ans st where
    "body = JObj kv" "''extracted_data'' \<in> set (map fst kv)" "groq = Inr atext"
    "parse_groq_response loads atext kv = Inr (JObj ans)"
    "dict_get ans ''status'' (JStr '''') = JStr st"
proof -
  obtain kv where body: "body = JObj kv"
    using webhook_not_object [OF key, of loads groq s] ok by auto
  with key have k: "''extracted_data'' \<in> set (map fst kv)" by (simp add: py_in_def)
  obtain atext where groq: "groq = Inr atext"
    using webhook_groq_raises [OF k, of loads _ s] ok body by (cases groq) auto
  obtain v where parse: "parse_groq_response loads atext kv = Inr v"
    using webhook_parse_raises [OF k, of loads atext _ s] ok body groq
    by (cases "parse_groq_response loads atext kv") auto
  have "routable v"
    using webhook_not_routable [OF k parse, of s] ok body groq by auto
  then obtain ans st where "v = JObj ans" "dict_get ans ''status'' (JStr '''') = JStr st"
    by (auto simp: routable_iff)
  with body k groq parse that show thesis by blast
qed

text \<open>Every outcome of a call on an object event, by what it leaves on the heap.\<close>

lemma webhook_object_outcomes:
  assumes "webhook loads (Inr (JObj kv)) groq s = (res, s')"
  shows "content_store s' = content_store s @ [length (heap s)] \<and>
     ((\<exists>e. res = Inl e) \<and> (\<exists>rest. heap s' = heap s @ JObj kv # rest)
      \<or> ''extracted_data'' \<notin> set (map fst kv) \<and> res = Inr (success_response (JObj kv)) \<and>
         heap s' = heap s @ [JObj kv]
      \<or> ''extracted_data'' \<in> set (map fst kv) \<and>
         (\<exists>cls ack. res = Inr (success_response (enriched kv cls ack)) \<and>
            heap s' = heap s @ [enriched kv cls ack, cls]))"
proof (cases "''extracted_data'' \<in> set (map fst kv)")
  case False
  with webhook_no_key [of kv loads groq s] assms show ?thesis by (auto simp: ingested_def)
next
  case k: True
  show ?thesis
  proof (cases groq)
    case (Inl e)
    with webhook_groq_raises [OF k, of loads e s] assms show ?thesis
      by (auto simp: ingested_def)
  next
    case (Inr atext)
    show ?thesis
    proof (cases "parse_groq_response loads atext kv")
      case (Inl e)
      with webhook_parse_raises [OF k Inl, of s] assms Inr show ?thesis
        by (auto simp: ingested_def)
    next
      case p: (Inr v)
      show ?thesis
      proof (cases "routable v")
        case False
        with webhook_not_routable [OF k p False, of s] assms Inr show ?thesis
          by (auto simp: ingested_def)
      next
        case True
        then obtain ans st where v: "v = JObj ans" "dict_get ans ''status'' (JStr '''') = JStr st"
          by (auto simp: routable_iff)
        show ?thesis
          using webhook_hospital [OF k p [unfolded v(1)] v(2), of s]
            webhook_consultation [OF k p [unfolded v(1)] v(2), of s] assms Inr k
          by (cases "str_lower st = ''emergency''") auto
      qed
    qed
  qed
qed

subsection \<open>Lower-casing and equality up to case\<close>

lemma lower_char_iff:
  assumes "\<not> is_upper d"
  shows "lower_char c = d \<longleftrightarrow> same_letter c d"
proof (cases "is_upper c")
  case True
  then have lt: "(of_char c :: nat) + 32 < 256" by (simp add: is_upper_def)
  have "lower_char c = d \<longleftrightarrow> char_of ((of_char c :: nat) + 32) = d"
    using True by (simp add: lower_char_def is_upper_def Let_def)
  also have "\<dots> \<longleftrightarrow> (of_char d :: nat) = of_char c + 32"
    using lt by (auto simp: char_of_eq_iff take_bit_eq_mod)
  also have "\<dots> \<longleftrightarrow> same_letter c d"
    using True assms by (auto simp: same_letter_def)
  finally show ?thesis .
next
  case False
  then show ?thesis using assms
    by (auto simp: lower_char_def same_letter_def is_upper_def Let_def)
qed

lemma str_lower_iff:
  "\<forall>d \<in> set t. \<not> is_upper d \<Longrightarrow> str_lower s = t \<longleftrightarrow> ci_equal s t"
proof (induction s arbitrary: t)
  case Nil
  then show ?case by (auto simp: str_lower_def ci_equal_def)
next
  case (Cons c s)
  show ?case
  proof (cases t)
    case Nil
    then show ?thesis by (simp add: str_lower_def ci_equal_def)
  next
    case (Cons d t')
    with Cons.prems have d: "\<not> is_upper d" and t': "\<forall>d \<in> set t'. \<not> is_upper d" by simp_all
    from Cons.IH [OF t'] lower_char_iff [OF d, of c] Cons show ?thesis
      by (simp add: str_lower_def ci_equal_def)
  qed
qed

lemma str_lower_emergency: "str_lower s = ''emergency'' \<longleftrightarrow> ci_equal s ''emergency''"
  by (rule str_lower_iff) (simp add: is_upper_def)

subsection \<open>The fallback dict\<close>

lemma fallback_typed:
  "fallback_response kv =
     (if mapping_or_absent kv ''extracted_data'' \<and> mapping_or_absent kv ''context_details''
      then Inr (heuristic kv) else Inl AttributeError)"
  by (auto simp: fallback_response_def mapping_or_absent_def heuristic_def event_field_def
      py_get_def dict_get_def split: option.splits json.splits)

subsection \<open>A complete run\<close>

lemma emergency_run:
  "webhook sample_loads (Inr (JObj chest_pain_event)) (Inr emergency_text) s =
     (Inr (success_response
        (enriched chest_pain_event (JObj [(''status'', JStr ''EMERGENCY'')]) hospital_ack)),
      s\<lparr>heap := heap s @
          [enriched chest_pain_event (JObj [(''status'', JStr ''EMERGENCY'')]) hospital_ack,
           JObj [(''status'', JStr ''EMERGENCY'')]],
        content_store := content_store s @ [length (heap s)],
        hospital_store := hospital_store s @ [Suc (length (heap s))]\<rparr>)"
proof -
  have k: "''extracted_data'' \<in> set (map fst chest_pain_event)"
    by (simp add: chest_pain_event_def)
  have p: "parse_groq_response sample_loads emergency_text chest_pain_event =
      Inr (JObj [(''status'', JStr ''EMERGENCY'')])"
    by (simp add: parse_groq_response_def sample_loads_def emergency_text_def)
  have l: "str_lower ''EMERGENCY'' = ''emergency''"
    by (simp add: str_lower_emergency ci_equal_def same_letter_def is_upper_def)
  show ?thesis
    using webhook_hospital [OF k p _ l, of s] by (simp add: dict_get_def)
qed

section \<open>When the classifier call fails\<close>

text \<open>
  C1, as the specification states it, fails: on the event of the specification's own
  scenario, a classifier call that times out does not end in a classification by the
  heuristic and a routing to consultation. The handler has no \<^verbatim>\<open>try\<close> around the call,
  so the exception reaches the outer \<^verbatim>\<open>except\<close>: the caller gets the HTTP error 400
  built from it, and \<^verbatim>\<open>consultation_store\<close> stays empty.
\<close>

theorem classifier_failure_counterexample:
  "webhook sample_loads (Inr (JObj chest_pain_event)) (Inl APITimeoutError) init_state =
     (Inl (HTTPException 400 APITimeoutError),
      \<lparr>heap = [JObj chest_pain_event], content_store = [0],
       hospital_store = [], consultation_store = []\<rparr>)"
  by (simp add: webhook_groq_raises chest_pain_event_def ingested_def init_state_def)

text \<open>
  C1, amended. For every event that is a JSON object with the key \<^verbatim>\<open>extracted_data\<close>,
  when the classifier call raises an exception \<open>e\<close> (a transport error, a timeout or
  any other), the handler does not complete: the caller receives the HTTP error 400 built
  from \<open>e\<close>, no classification and no routing is made (neither intake store changes), and
  the only effect is that the raw event has been appended to \<^verbatim>\<open>content_store\<close>.
\<close>

theorem classifier_failure_aborts:
  assumes "''extracted_data'' \<in> set (map fst kv)"
  shows "webhook loads (Inr (JObj kv)) (Inl e) s =
     (Inl (HTTPException 400 e),
      s\<lparr>heap := heap s @ [JObj kv], content_store := content_store s @ [length (heap s)]\<rparr>)"
  using webhook_groq_raises [OF assms] by (simp add: ingested_def)

theorem classifier_failure_aborts_witness:
  "''extracted_data'' \<in> set (map fst chest_pain_event) \<and>
   fst (webhook sample_loads (Inr (JObj chest_pain_event)) (Inl APIConnectionError) init_state) =
     Inl (HTTPException 400 APIConnectionError) \<and>
   consultation_store
     (snd (webhook sample_loads (Inr (JObj chest_pain_event)) (Inl APIConnectionError) init_state))
     = []"
  using classifier_failure_aborts [of chest_pain_event sample_loads APIConnectionError init_state]
  by (simp add: chest_pain_event_def init_state_def)

section \<open>Routing on the status of the answer\<close>

text \<open>
  C2. For every event that is a JSON object with the key \<^verbatim>\<open>extracted_data\<close>, when the
  answer text parses to an object whose \<^verbatim>\<open>status\<close> is a string \<open>st\<close>, or is missing
  (then \<open>st\<close> is the empty string): if \<open>st\<close> equals \<^verbatim>\<open>emergency\<close> up to the case of its
  letters, the answer object is appended to \<^verbatim>\<open>hospital_store\<close>, \<^verbatim>\<open>consultation_store\<close> is
  untouched and the event carries the hospital acknowledgement; for every other \<open>st\<close>
  the answer object is appended to \<^verbatim>\<open>consultation_store\<close>, \<^verbatim>\<open>hospital_store\<close> is untouched
  and the event carries the consultation acknowledgement. In both cases the handler
  returns the success response.
\<close>

theorem status_decides_destination:
  assumes "''extracted_data'' \<in> set (map fst kv)"
    and "loads text = Some (JObj ans)"
    and "map_of ans ''status'' = Some (JStr st) \<or> map_of ans ''status'' = None \<and> st = ''''"
  shows "webhook loads (Inr (JObj kv)) (Inr text) s =
     (if ci_equal st ''emergency''
      then (Inr (success_response (enriched kv (JObj ans) hospital_ack)),
            s\<lparr>heap := heap s @ [enriched kv (JObj ans) hospital_ack, JObj ans],
              content_store := content_store s @ [length (heap s)],
              hospital_store := hospital_store s @ [Suc (length (heap s))]\<rparr>)
      else (Inr (success_response (enriched kv (JObj ans) consultation_ack)),
            s\<lparr>heap := heap s @ [enriched kv (JObj ans) consultation_ack, JObj ans],
              content_store := content_store s @ [length (heap s)],
              consultation_store := consultation_store s @ [Suc (length (heap s))]\<rparr>))"
proof -
  have st: "dict_get ans ''status'' (JStr '''') = JStr st"
    using assms(3) by (auto simp: dict_get_def)
  have p: "parse_groq_response loads text kv = Inr (JObj ans)"
    using assms(2) by (simp add: parse_groq_response_def)
  show ?thesis
  proof (cases "ci_equal st ''emergency''")
    case True
    then have "str_lower st = ''emergency''" by (simp add: str_lower_emergency)
    from webhook_hospital [OF assms(1) p st this] True show ?thesis by simp
  next
    case False
    then have "str_lower st \<noteq> ''emergency''" by (simp add: str_lower_emergency)
    from webhook_consultation [OF assms(1) p st this] False show ?thesis by simp
  qed
qed

theorem status_decides_destination_witness:
  "''extracted_data'' \<in> set (map fst chest_pain_event) \<and>
   sample_loads emergency_text = Some (JObj [(''status'', JStr ''EMERGENCY'')]) \<and>
   ci_equal ''EMERGENCY'' ''emergency'' \<and>
   hospital_store (snd (webhook sample_loads (Inr (JObj chest_pain_event)) (Inr emergency_text)
      init_state)) = [1] \<and>
   consultation_store (snd (webhook sample_loads (Inr (JObj chest_pain_event)) (Inr emergency_text)
      init_state)) = []"
  using status_decides_destination [of chest_pain_event sample_loads emergency_text
      "[(''status'', JStr ''EMERGENCY'')]" "''EMERGENCY''" init_state]
  by (simp add: chest_pain_event_def sample_loads_def emergency_text_def init_state_def
      ci_equal_def same_letter_def is_upper_def)

section \<open>When the answer does not parse\<close>

text \<open>
  C3, as the specification states it, fails in three places. An answer that does not
  parse and a classifier that cannot be reached do not behave identically: on the same
  event, the answer on which \<^verbatim>\<open>json.loads\<close> raises ends in the success response with the
  heuristic classification and the consultation acknowledgement, the timeout ends in
  the HTTP error 400. Not every form of malformed answer reaches the fallback: the
  answer \<^verbatim>\<open>[]\<close> is valid JSON, so \<^verbatim>\<open>json.loads\<close> returns and the \<^verbatim>\<open>except\<close> branch does not
  run, but it is not the expected object, and the call ends in the HTTP error 400. And
  the fallback itself raises when \<^verbatim>\<open>extracted_data\<close> is present but is not a mapping: the
  \<^verbatim>\<open>.get\<close> chain of line 126 is then called on a value without that method, inside the
  \<^verbatim>\<open>except\<close> branch, and the call ends in the HTTP error 400.
\<close>

theorem unparseable_vs_unreachable_counterexample:
  "fst (webhook sample_loads (Inr (JObj chest_pain_event)) (Inr ''I cannot help with that.'')
          init_state) =
     Inr (success_response (enriched chest_pain_event (heuristic chest_pain_event) consultation_ack)) \<and>
   fst (webhook sample_loads (Inr (JObj chest_pain_event)) (Inl APITimeoutError) init_state) =
     Inl (HTTPException 400 APITimeoutError) \<and>
   sample_loads ''[]'' = Some (JArr []) \<and>
   fst (webhook sample_loads (Inr (JObj chest_pain_event)) (Inr ''[]'') init_state) =
     Inl (HTTPException 400 AttributeError) \<and>
   fst (webhook sample_loads (Inr (JObj null_data_event)) (Inr ''I cannot help with that.'')
          init_state) =
     Inl (HTTPException 400 AttributeError)"
proof -
  have q: "parse_groq_response sample_loads ''[]'' chest_pain_event = Inr (JArr [])"
    by (simp add: parse_groq_response_def sample_loads_def)
  have nr: "\<not> routable (JArr [])"
    by (simp add: routable_def)
  have k: "''extracted_data'' \<in> set (map fst chest_pain_event)"
    by (simp add: chest_pain_event_def)
  have k': "''extracted_data'' \<in> set (map fst null_data_event)"
    by (simp add: null_data_event_def)
  have p': "parse_groq_response sample_loads ''I cannot help with that.'' null_data_event =
      Inl AttributeError"
    by (simp add: parse_groq_response_def sample_loads_def emergency_text_def fallback_typed
        mapping_or_absent_def null_data_event_def)
  have p: "parse_groq_response sample_loads ''I cannot help with that.'' chest_pain_event =
      Inr (JObj [(''status'', JStr ''not emergency''),
           (''location'', event_field chest_pain_event ''extracted_data'' ''location''),
           (''issue'', event_field chest_pain_event ''extracted_data'' ''issues''),
           (''recipient_phone_number'',
              event_field chest_pain_event ''context_details'' ''recipient_phone_number'')])"
    by (simp add: parse_groq_response_def sample_loads_def emergency_text_def fallback_typed
        mapping_or_absent_def chest_pain_event_def heuristic_def)
  have l: "str_lower ''not emergency'' \<noteq> ''emergency''"
    by (simp add: str_lower_def)
  show ?thesis
    using webhook_consultation [OF k p _ l, of init_state] webhook_groq_raises [OF k]
      webhook_parse_raises [OF k' p', of init_state]
      webhook_not_routable [OF k q nr, of init_state]
    by (simp add: dict_get_def heuristic_def sample_loads_def)
qed

text \<open>
  C3, amended. For every event that is a JSON object whose \<^verbatim>\<open>extracted_data\<close> is a
  mapping and whose \<^verbatim>\<open>context_details\<close> is a mapping or absent (the event of the
  specification's data model), whenever the answer text is not valid JSON, that is,
  whenever \<^verbatim>\<open>json.loads\<close> raises on it: the classification is the deterministic heuristic
  (status \<^verbatim>\<open>not emergency\<close>, location \<^verbatim>\<open>extracted_data.location\<close>, issue
  \<^verbatim>\<open>extracted_data.issues\<close>, contact \<^verbatim>\<open>context_details.recipient_phone_number\<close>, each the
  empty string if absent), it is appended to \<^verbatim>\<open>consultation_store\<close> and to nothing else,
  and the handler returns the success response with the event carrying that
  classification and the consultation acknowledgement. Nothing is said here of an
  answer that is valid JSON but not the expected object, nor of the case where the
  classifier cannot be reached.
\<close>

theorem unparseable_answer_fallback:
  assumes "''extracted_data'' \<in> set (map fst kv)"
    and "mapping_or_absent kv ''extracted_data''"
    and "mapping_or_absent kv ''context_details''"
    and "loads text = None"
  shows "webhook loads (Inr (JObj kv)) (Inr text) s =
     (Inr (success_response (enriched kv (heuristic kv) consultation_ack)),
      s\<lparr>heap := heap s @ [enriched kv (heuristic kv) consultation_ack, heuristic kv],
        content_store := content_store s @ [length (heap s)],
        consultation_store := consultation_store s @ [Suc (length (heap s))]\<rparr>)"
proof -
  have p: "parse_groq_response loads text kv =
      Inr (JObj [(''status'', JStr ''not emergency''),
           (''location'', event_field kv ''extracted_data'' ''location''),
           (''issue'', event_field kv ''extracted_data'' ''issues''),
           (''recipient_phone_number'', event_field kv ''context_details'' ''recipient_phone_number'')])"
    using assms(2-4) by (simp add: parse_groq_response_def fallback_typed heuristic_def)
  have l: "str_lower ''not emergency'' \<noteq> ''emergency''"
    by (simp add: str_lower_def)
  show ?thesis
    using webhook_consultation [OF assms(1) p _ l, of s]
    by (simp add: dict_get_def heuristic_def)
qed

theorem unparseable_answer_fallback_witness:
  "''extracted_data'' \<in> set (map fst chest_pain_event) \<and>
   mapping_or_absent chest_pain_event ''extracted_data'' \<and>
   mapping_or_absent chest_pain_event ''context_details'' \<and>
   sample_loads ''I cannot help with that.'' = None \<and>
   heap (snd (webhook sample_loads (Inr (JObj chest_pain_event))
          (Inr ''I cannot help with that.'') init_state)) ! 1 =
     JObj [(''status'', JStr ''not emergency''), (''location'', JStr ''Main St''),
           (''issue'', JStr ''chest pain''), (''recipient_phone_number'', JStr ''555-1111'')] \<and>
   consultation_store (snd (webhook sample_loads (Inr (JObj chest_pain_event))
          (Inr ''I cannot help with that.'') init_state)) = [1] \<and>
   hospital_store (snd (webhook sample_loads (Inr (JObj chest_pain_event))
          (Inr ''I cannot help with that.'') init_state)) = []"
  using unparseable_answer_fallback [of chest_pain_event sample_loads
      "''I cannot help with that.''" init_state]
  by (simp add: chest_pain_event_def mapping_or_absent_def sample_loads_def emergency_text_def
      init_state_def heuristic_def event_field_def)

section \<open>Events without extracted data\<close>

text \<open>
  C4. For every event that is a JSON object without the key \<^verbatim>\<open>extracted_data\<close>, the
  handler returns the success response carrying the event as received (no
  \<^verbatim>\<open>groq_response\<close>, no \<^verbatim>\<open>forward_result\<close>); the only change of the state is that the
  event is a new object appended to \<^verbatim>\<open>content_store\<close>, so neither \<^verbatim>\<open>hospital_store\<close> nor
  \<^verbatim>\<open>consultation_store\<close> is touched; and the outcome is the same whatever the classifier
  and \<^verbatim>\<open>json.loads\<close> would do, since neither is called.
\<close>

theorem no_extracted_data_stored_only:
  assumes "''extracted_data'' \<notin> set (map fst kv)"
  shows "webhook loads (Inr (JObj kv)) groq s =
     (Inr (success_response (JObj kv)),
      s\<lparr>heap := heap s @ [JObj kv], content_store := content_store s @ [length (heap s)]\<rparr>)"
  using webhook_no_key [OF assms] by (simp add: ingested_def)

theorem no_extracted_data_stored_only_witness:
  "''extracted_data'' \<notin> set (map fst bare_event) \<and>
   webhook sample_loads (Inr (JObj bare_event)) (Inl APITimeoutError) init_state =
     (Inr (JObj [(''status'', JStr ''success''),
                 (''message'', JStr ''Webhook received and processed''),
                 (''data'', JObj [(''transcript'', JStr ''hello'')])]),
      \<lparr>heap = [JObj [(''transcript'', JStr ''hello'')]], content_store = [0],
       hospital_store = [], consultation_store = []\<rparr>)"
  using no_extracted_data_stored_only [of bare_event sample_loads "Inl APITimeoutError" init_state]
  by (simp add: bare_event_def init_state_def success_response_def)

section \<open>The audit store\<close>




text \<open>
  C6, as the specification states it, fails: the event stored at ingestion is changed
  by the rest of the call. At ingestion the record reads as the raw event; after a
  complete run the same record has the two keys \<^verbatim>\<open>groq_response\<close> and
  \<^verbatim>\<open>forward_result\<close>.
\<close>

theorem event_immutable_counterexample:
  "heap (ingested (JObj chest_pain_event) init_state) ! 0 = JObj chest_pain_event \<and>
   heap (snd (webhook sample_loads (Inr (JObj chest_pain_event)) (Inr emergency_text)
      init_state)) ! 0 =
     JObj (chest_pain_event @
       [(''groq_response'', JObj [(''status'', JStr ''EMERGENCY'')]),
        (''forward_result'', JObj [(''message'', JStr ''Data forwarded to hospital.'')])])"
  unfolding emergency_run
  by (simp add: ingested_def init_state_def enriched_def dict_set_def
      chest_pain_event_def hospital_ack_def)

text \<open>
  C6, amended. For every event that is a JSON object, a call writes to the event at
  most the two keys \<^verbatim>\<open>groq_response\<close> and \<^verbatim>\<open>forward_result\<close>: after the call the stored
  event is an object in which every other key reads as it did when the event was
  received. The event is not changed at all when it has no \<^verbatim>\<open>extracted_data\<close> or when the
  call ends in an error. Every object stored before the call reads as before.
\<close>

theorem event_fields_preserved:
  assumes "webhook loads (Inr (JObj kv)) groq s = (res, s')"
  shows "(\<exists>kv'. heap s' ! length (heap s) = JObj kv' \<and>
        (\<forall>k. k \<noteq> ''groq_response'' \<and> k \<noteq> ''forward_result'' \<longrightarrow> map_of kv' k = map_of kv k)) \<and>
     (''extracted_data'' \<notin> set (map fst kv) \<or> (\<exists>e. res = Inl e)
        \<longrightarrow> heap s' ! length (heap s) = JObj kv) \<and>
     (\<forall>a < length (heap s). heap s' ! a = heap s ! a)"
  using webhook_object_outcomes [OF assms]
  by (auto simp: ingested_def nth_append enriched_def dict_set_def update_conv')

theorem event_fields_preserved_witness:
  "heap (snd (webhook sample_loads (Inr (JObj chest_pain_event)) (Inr emergency_text)
      one_event_state)) ! 0 = JObj bare_event \<and>
   (\<exists>kv'. heap (snd (webhook sample_loads (Inr (JObj chest_pain_event)) (Inr emergency_text)
      one_event_state)) ! 1 = JObj kv' \<and> map_of kv' ''transcript'' = Some (JStr ''chest pain''))"
proof -
  let ?s' = "snd (webhook sample_loads (Inr (JObj chest_pain_event)) (Inr emergency_text)
      one_event_state)"
  have len: "length (heap one_event_state) = 1" and h0: "heap one_event_state ! 0 = JObj bare_event"
    by (simp_all add: one_event_state_def)
  from event_fields_preserved [OF emergency_run, of one_event_state]
  obtain kv' where a: "heap ?s' ! 1 = JObj kv'"
    and b: "\<forall>k. k \<noteq> ''groq_response'' \<and> k \<noteq> ''forward_result'' \<longrightarrow>
              map_of kv' k = map_of chest_pain_event k"
    and c: "\<forall>a < 1. heap ?s' ! a = heap one_event_state ! a"
    unfolding emergency_run len by auto
  from b have "map_of kv' ''transcript'' = map_of chest_pain_event ''transcript''" by simp
  then have "map_of kv' ''transcript'' = Some (JStr ''chest pain'')"
    by (simp add: chest_pain_event_def)
  with a c h0 show ?thesis by auto
qed

section \<open>Answer objects with missing keys\<close>




section \<open>One classification, one intake call\<close>

text \<open>
  C8. For every request body that contains \<^verbatim>\<open>extracted_data\<close> and whose call completes
  with the success response: the body is an object; the response carries that event
  with one classification \<open>cls\<close> and one acknowledgement \<open>ack\<close> attached; the heap grows
  by exactly the event and that classification; \<^verbatim>\<open>content_store\<close> grows by the event;
  and exactly one of the two intake stores grows, by exactly one entry, the
  classification: \<^verbatim>\<open>hospital_store\<close> with the hospital acknowledgement, or
  \<^verbatim>\<open>consultation_store\<close> with the consultation acknowledgement, the other store unchanged.
\<close>

theorem exactly_one_intake:
  assumes "webhook loads (Inr body) groq s = (Inr r, s')"
    and "py_in ''extracted_data'' body = Inr True"
  shows "\<exists>kv cls ack.
     body = JObj kv \<and> r = success_response (enriched kv cls ack) \<and>
     heap s' = heap s @ [enriched kv cls ack, cls] \<and>
     content_store s' = content_store s @ [length (heap s)] \<and>
     (ack = hospital_ack \<and>
        hospital_store s' = hospital_store s @ [Suc (length (heap s))] \<and>
        consultation_store s' = consultation_store s
      \<or> ack = consultation_ack \<and>
        hospital_store s' = hospital_store s \<and>
        consultation_store s' = consultation_store s @ [Suc (length (heap s))])"
proof -
  from assms obtain kv atext ans st where c:
    "body = JObj kv" "''extracted_data'' \<in> set (map fst kv)" "groq = Inr atext"
    "parse_groq_response loads atext kv = Inr (JObj ans)"
    "dict_get ans ''status'' (JStr '''') = JStr st"
    by (rule webhook_completes_cases)
  show ?thesis
  proof (cases "str_lower st = ''emergency''")
    case True
    from webhook_hospital [OF c(2,4,5) True, of s] assms(1) c(1,3)
    show ?thesis by auto
  next
    case False
    from webhook_consultation [OF c(2,4,5) False, of s] assms(1) c(1,3)
    show ?thesis by auto
  qed
qed

theorem exactly_one_intake_witness:
  "py_in ''extracted_data'' (JObj chest_pain_event) = Inr True \<and>
   fst (webhook sample_loads (Inr (JObj chest_pain_event)) (Inr emergency_text) init_state) =
     Inr (success_response
        (enriched chest_pain_event (JObj [(''status'', JStr ''EMERGENCY'')]) hospital_ack)) \<and>
   length (hospital_store (snd (webhook sample_loads (Inr (JObj chest_pain_event))
      (Inr emergency_text) init_state))) +
   length (consultation_store (snd (webhook sample_loads (Inr (JObj chest_pain_event))
      (Inr emergency_text) init_state))) = 1"
proof -
  have k: "py_in ''extracted_data'' (JObj chest_pain_event) = Inr True"
    by (simp add: py_in_def chest_pain_event_def)
  show ?thesis
    using exactly_one_intake [OF emergency_run k, of init_state] k
    unfolding emergency_run by (auto simp: init_state_def)
qed

section \<open>The parse step as a function\<close>

text \<open>
  C9. The parse step (\<^verbatim>\<open>json.loads\<close> with its fallback) takes no state and returns none,
  and its result is determined by the answer text and the two fields
  \<^verbatim>\<open>extracted_data\<close> and \<^verbatim>\<open>context_details\<close> of the event: two events that agree on these
  two fields get the same result for the same answer text, whatever else they contain,
  whether the result is a classification or the exception of the fallback.
\<close>

theorem parse_depends_only_on_fields:
  assumes "map_of kv1 ''extracted_data'' = map_of kv2 ''extracted_data''"
    and "map_of kv1 ''context_details'' = map_of kv2 ''context_details''"
  shows "parse_groq_response loads text kv1 = parse_groq_response loads text kv2"
proof -
  have "fallback_response kv1 = fallback_response kv2"
    unfolding fallback_response_def dict_get_def assms by (rule refl)
  then show ?thesis by (simp add: parse_groq_response_def split: option.splits)
qed

theorem parse_depends_only_on_fields_witness:
  "map_of chest_pain_event ''extracted_data'' =
     map_of ((''call_id'', JInt 7) # chest_pain_event) ''extracted_data'' \<and>
   map_of chest_pain_event ''context_details'' =
     map_of ((''call_id'', JInt 7) # chest_pain_event) ''context_details'' \<and>
   parse_groq_response sample_loads ''I cannot help with that.'' chest_pain_event =
     parse_groq_response sample_loads ''I cannot help with that.''
       ((''call_id'', JInt 7) # chest_pain_event)"
  using parse_depends_only_on_fields [of chest_pain_event "(''call_id'', JInt 7) # chest_pain_event"
      sample_loads "''I cannot help with that.''"]
  by simp

section \<open>Answers that parse but cannot be routed\<close>

text \<open>
  C10. For every event that is a JSON object with the key \<^verbatim>\<open>extracted_data\<close>, when the
  answer text parses to a value \<open>v\<close>: if \<open>v\<close> is an object whose \<^verbatim>\<open>status\<close> is absent or
  a string, the call completes with a success response; in every other case (an array,
  a bare string, number, boolean or null, or an object whose \<^verbatim>\<open>status\<close> is not a
  string) the call ends in the HTTP error 400 built from \<^verbatim>\<open>AttributeError\<close>, with no
  fallback to the heuristic: the event has been appended to \<^verbatim>\<open>content_store\<close>, and
  neither intake store has changed.
\<close>

theorem unroutable_answer_aborts:
  assumes "''extracted_data'' \<in> set (map fst kv)"
    and "loads text = Some v"
  shows "if routable v
     then \<exists>r s'. webhook loads (Inr (JObj kv)) (Inr text) s = (Inr r, s')
     else webhook loads (Inr (JObj kv)) (Inr text) s =
       (Inl (HTTPException 400 AttributeError),
        s\<lparr>heap := heap s @ [JObj kv, v], content_store := content_store s @ [length (heap s)]\<rparr>)"
proof -
  have p: "parse_groq_response loads text kv = Inr v"
    using assms(2) by (simp add: parse_groq_response_def)
  show ?thesis
  proof (cases "routable v")
    case True
    then obtain ans st where v: "v = JObj ans" "dict_get ans ''status'' (JStr '''') = JStr st"
      by (auto simp: routable_iff)
    show ?thesis
      using webhook_hospital [OF assms(1) p [unfolded v(1)] v(2), of s]
        webhook_consultation [OF assms(1) p [unfolded v(1)] v(2), of s] True
      by (cases "str_lower st = ''emergency''") auto
  next
    case False
    with webhook_not_routable [OF assms(1) p False, of s] show ?thesis by simp
  qed
qed

theorem unroutable_answer_aborts_witness:
  "''extracted_data'' \<in> set (map fst chest_pain_event) \<and>
   sample_loads ''[]'' = Some (JArr []) \<and> \<not> routable (JArr []) \<and>
   webhook sample_loads (Inr (JObj chest_pain_event)) (Inr ''[]'') init_state =
     (Inl (HTTPException 400 AttributeError),
      \<lparr>heap = [JObj chest_pain_event, JArr []], content_store = [0],
       hospital_store = [], consultation_store = []\<rparr>)"
  using unroutable_answer_aborts [of chest_pain_event sample_loads "''[]''" "JArr []" init_state]
  by (simp add: chest_pain_event_def sample_loads_def routable_def init_state_def)

end
